theory Spec2Isabelle
  imports Complex_Main "HOL-Library.Stream"
begin

section \<open>JavaScript numbers\<close>

text \<open>
  A JavaScript \<open>number\<close> is modelled as a real, one of the two infinities, or NaN.
  Overflow is modelled: an operation whose exact result reaches the magnitude
  \<open>2^1024 - 2^970\<close>, from which IEEE-754 doubles round to infinity, returns the infinity of
  its sign. Below that magnitude the exact result is kept: rounding (underflow to zero
  included) and the sign of zero are not modelled. Every operator below follows the
  ECMAScript rules for NaN and the infinities.
\<close>

datatype number = NaN | NegInf | Fin real | PosInf

definition overflow_threshold :: real where
  "overflow_threshold = 2 ^ 1024 - 2 ^ 970"

text \<open>The number for an exact result \<open>x\<close> of an operation.\<close>

definition to_number :: "real \<Rightarrow> number" where
  "to_number x =
     (if overflow_threshold \<le> x then PosInf
      else if x \<le> - overflow_threshold then NegInf
      else Fin x)"

fun js_neg :: "number \<Rightarrow> number" where
  "js_neg NaN = NaN"
| "js_neg NegInf = PosInf"
| "js_neg (Fin x) = Fin (- x)"
| "js_neg PosInf = NegInf"

text \<open>The binary operator \<open>+\<close> on numbers.\<close>

fun js_add :: "number \<Rightarrow> number \<Rightarrow> number" where
  "js_add (Fin x) (Fin y) = to_number (x + y)"
| "js_add NaN b = NaN"
| "js_add a NaN = NaN"
| "js_add PosInf NegInf = NaN"
| "js_add NegInf PosInf = NaN"
| "js_add PosInf b = PosInf"
| "js_add a PosInf = PosInf"
| "js_add NegInf b = NegInf"
| "js_add a NegInf = NegInf"

text \<open>The binary operator \<open>-\<close>.\<close>

definition js_sub :: "number \<Rightarrow> number \<Rightarrow> number" where
  "js_sub a b = js_add a (js_neg b)"

text \<open>The operator \<open>*\<close>: an infinity times zero is NaN.\<close>

fun js_mul :: "number \<Rightarrow> number \<Rightarrow> number" where
  "js_mul (Fin x) (Fin y) = to_number (x * y)"
| "js_mul NaN b = NaN"
| "js_mul a NaN = NaN"
| "js_mul PosInf (Fin y) = (if y = 0 then NaN else if 0 < y then PosInf else NegInf)"
| "js_mul NegInf (Fin y) = (if y = 0 then NaN else if 0 < y then NegInf else PosInf)"
| "js_mul (Fin x) PosInf = (if x = 0 then NaN else if 0 < x then PosInf else NegInf)"
| "js_mul (Fin x) NegInf = (if x = 0 then NaN else if 0 < x then NegInf else PosInf)"
| "js_mul PosInf PosInf = PosInf"
| "js_mul NegInf NegInf = PosInf"
| "js_mul PosInf NegInf = NegInf"
| "js_mul NegInf PosInf = NegInf"

text \<open>
  The operator \<open>/\<close>. A zero divisor counts as \<open>+0\<close>; every divisor in the program is a
  positive literal, so that case is never reached.
\<close>

fun js_div :: "number \<Rightarrow> number \<Rightarrow> number" where
  "js_div (Fin x) (Fin y) =
     (if y = 0 then (if x = 0 then NaN else if 0 < x then PosInf else NegInf)
      else to_number (x / y))"
| "js_div NaN b = NaN"
| "js_div a NaN = NaN"
| "js_div (Fin x) PosInf = Fin 0"
| "js_div (Fin x) NegInf = Fin 0"
| "js_div PosInf (Fin y) = (if 0 \<le> y then PosInf else NegInf)"
| "js_div NegInf (Fin y) = (if 0 \<le> y then NegInf else PosInf)"
| "js_div PosInf b = NaN"
| "js_div NegInf b = NaN"

text \<open>The comparison \<open>a < b\<close>: false as soon as one side is NaN.\<close>

fun js_lt :: "number \<Rightarrow> number \<Rightarrow> bool" where
  "js_lt (Fin x) (Fin y) = (x < y)"
| "js_lt NaN b = False"
| "js_lt a NaN = False"
| "js_lt NegInf NegInf = False"
| "js_lt NegInf b = True"
| "js_lt PosInf b = False"
| "js_lt (Fin x) PosInf = True"
| "js_lt (Fin x) NegInf = False"

text \<open>The comparison \<open>a > b\<close>.\<close>

definition js_gt :: "number \<Rightarrow> number \<Rightarrow> bool" where
  "js_gt a b = js_lt b a"

text \<open>\<open>Math.max\<close> and \<open>Math.min\<close> of two arguments: NaN if either argument is NaN.\<close>

fun Math_max :: "number \<Rightarrow> number \<Rightarrow> number" where
  "Math_max (Fin x) (Fin y) = Fin (max x y)"
| "Math_max NaN b = NaN"
| "Math_max a NaN = NaN"
| "Math_max PosInf b = PosInf"
| "Math_max a PosInf = PosInf"
| "Math_max NegInf b = b"
| "Math_max a NegInf = a"

fun Math_min :: "number \<Rightarrow> number \<Rightarrow> number" where
  "Math_min (Fin x) (Fin y) = Fin (min x y)"
| "Math_min NaN b = NaN"
| "Math_min a NaN = NaN"
| "Math_min NegInf b = NegInf"
| "Math_min a NegInf = NegInf"
| "Math_min PosInf b = b"
| "Math_min a PosInf = a"

text \<open>
  \<open>Math.pow(base, exponent)\<close> for a finite exponent (every call site passes a literal:
  3, 2 or 0.25). A negative base with a fractional exponent gives NaN.
\<close>

definition is_integer :: "real \<Rightarrow> bool" where
  "is_integer y \<longleftrightarrow> of_int \<lfloor>y\<rfloor> = y"

definition Math_pow :: "number \<Rightarrow> real \<Rightarrow> number" where
  "Math_pow base exponent =
     (if exponent = 0 then Fin 1
      else case base of
        NaN \<Rightarrow> NaN
      | PosInf \<Rightarrow> (if 0 < exponent then PosInf else Fin 0)
      | NegInf \<Rightarrow>
          (if 0 < exponent
           then (if is_integer exponent \<and> odd \<lfloor>exponent\<rfloor> then NegInf else PosInf)
           else Fin 0)
      | Fin x \<Rightarrow>
          (if x = 0 then (if 0 < exponent then Fin 0 else PosInf)
           else if is_integer exponent then to_number (x powi \<lfloor>exponent\<rfloor>)
           else if 0 < x then to_number (x powr exponent)
           else NaN))"

definition Math_PI :: number where
  "Math_PI = Fin pi"

section \<open>parseFloat\<close>

text \<open>
  \<open>parseFloat\<close> skips leading white space and converts the longest prefix of the rest
  that is a decimal literal (optional sign, then \<open>Infinity\<close> or digits with an optional
  fraction and exponent); with no such prefix the result is NaN. A literal too large for
  a double gives an infinity. Strings are lists of 8-bit characters.
\<close>

definition is_white_space :: "char \<Rightarrow> bool" where
  "is_white_space c \<longleftrightarrow> (of_char c :: nat) \<in> {9, 10, 11, 12, 13, 32, 160}"

definition is_decimal_digit :: "char \<Rightarrow> bool" where
  "is_decimal_digit c \<longleftrightarrow> 48 \<le> (of_char c :: nat) \<and> (of_char c :: nat) \<le> 57"

definition digits_value :: "string \<Rightarrow> nat" where
  "digits_value ds = foldl (\<lambda>n c. 10 * n + (of_char c - 48)) 0 ds"

definition exponent_part :: "string \<Rightarrow> int" where
  "exponent_part s =
     (case s of
        [] \<Rightarrow> 0
      | c # r \<Rightarrow>
          if c = CHR ''e'' \<or> c = CHR ''E'' then
            (case r of
               [] \<Rightarrow> 0
             | sg # ds \<Rightarrow>
                 if sg = CHR ''-'' then - int (digits_value (takeWhile is_decimal_digit ds))
                 else if sg = CHR ''+'' then int (digits_value (takeWhile is_decimal_digit ds))
                 else int (digits_value (takeWhile is_decimal_digit r)))
          else 0)"

definition parseFloat :: "string \<Rightarrow> number" where
  "parseFloat inputString =
     (let trimmed = dropWhile is_white_space inputString;
          negative = (case trimmed of [] \<Rightarrow> False | c # r \<Rightarrow> c = CHR ''-'');
          unsigned = (case trimmed of
                        [] \<Rightarrow> []
                      | c # r \<Rightarrow> if c = CHR ''-'' \<or> c = CHR ''+'' then r else trimmed)
      in if take 8 unsigned = ''Infinity'' then (if negative then NegInf else PosInf)
         else
           let intDigits = takeWhile is_decimal_digit unsigned;
               afterInt = dropWhile is_decimal_digit unsigned;
               fracDigits = (case afterInt of
                               [] \<Rightarrow> []
                             | c # r \<Rightarrow> if c = CHR ''.'' then takeWhile is_decimal_digit r else []);
               afterFrac = (case afterInt of
                              [] \<Rightarrow> []
                            | c # r \<Rightarrow> if c = CHR ''.'' then dropWhile is_decimal_digit r
                                       else afterInt)
           in if intDigits = [] \<and> fracDigits = [] then NaN
              else
                let magnitude =
                      (real (digits_value intDigits)
                        + real (digits_value fracDigits) / 10 ^ length fracDigits)
                      * 10 powi exponent_part afterFrac
                in to_number (if negative then - magnitude else magnitude))"

section \<open>Data model (types/asteroid.ts)\<close>

record diameter_t =
  estimated_diameter_min :: number
  estimated_diameter_max :: number

record relative_velocity_t =
  kilometers_per_second :: string

record miss_distance_t =
  kilometers :: string

record close_approach =
  epoch_date_close_approach :: number
  relative_velocity :: relative_velocity_t
  miss_distance :: miss_distance_t

record orbit_class_t =
  orbit_class_type :: string
  orbit_class_description :: string

record orbital_data_t =
  orbit_class :: orbit_class_t
  inclination :: string
  eccentricity :: string
  semi_major_axis :: string

text \<open>The field \<open>id\<close> of the interface is called \<open>asteroid_id\<close> here.\<close>

record Asteroid =
  asteroid_id :: string
  name :: string
  diameter :: diameter_t
  close_approach_data :: "close_approach list"
  orbital_data :: orbital_data_t
  absolute_magnitude_h :: number
  is_potentially_hazardous_asteroid :: bool

text \<open>Optional fields of the interface are options; \<open>undefined\<close> is \<open>None\<close>.\<close>

record CollisionAnalysis =
  willCollide :: bool
  probability :: number
  timeToImpact :: "number option"
  impactVelocity :: "number option"
  kineticEnergy :: "number option"
  tsunamiRisk :: "bool option"
  craterSize :: "number option"

section \<open>Clock and randomness\<close>

text \<open>
  \<open>Date.now()\<close> and \<open>Math.random()\<close> read the environment. The environment is the
  stream of values the clock will return and the stream of values the generator will
  return, each call consuming one.
\<close>

record sources =
  clock :: "real stream"
  generator :: "real stream"

definition Date_now :: "sources \<Rightarrow> number \<times> sources" where
  "Date_now s = (Fin (shd (clock s)), s\<lparr>clock := stl (clock s)\<rparr>)"

definition Math_random :: "sources \<Rightarrow> number \<times> sources" where
  "Math_random s = (Fin (shd (generator s)), s\<lparr>generator := stl (generator s)\<rparr>)"

text \<open>Sources pinned to one time \<open>t\<close> and one random value \<open>u\<close>.\<close>

definition pinned :: "real \<Rightarrow> real \<Rightarrow> sources" where
  "pinned t u = \<lparr>clock = sconst t, generator = sconst u\<rparr>"

section \<open>The estimator (CollisionAnalysis.tsx, calculateCollisionProbability)\<close>

text \<open>The only exception the function can raise: reading a property of \<open>undefined\<close>.\<close>

datatype error = TypeError

definition earthRadius :: number where
  "earthRadius = Fin 6371"

text \<open>
  The \<open>if\<close>/\<open>else if\<close>/\<open>else\<close> chain on the miss distance: the values of the
  variables \<open>probability\<close> and \<open>willCollide\<close> after it.
\<close>

definition distance_tier :: "number \<Rightarrow> number \<times> bool" where
  "distance_tier missDistance =
     (if js_lt missDistance (js_mul earthRadius (Fin 2)) then
        (Math_max (Fin 0.1) (js_sub (Fin 1) (js_div missDistance (js_mul earthRadius (Fin 10)))),
         js_lt missDistance (js_mul earthRadius (Fin 1.5)))
      else if js_lt missDistance (js_mul earthRadius (Fin 10)) then
        (Math_max (Fin 0.001)
           (js_sub (Fin 0.1) (js_div missDistance (js_mul earthRadius (Fin 100)))),
         False)
      else
        (Math_max (Fin 0.0001)
           (js_sub (Fin 0.01) (js_div missDistance (js_mul earthRadius (Fin 1000)))),
         False))"

text \<open>The statement \<open>if (is_potentially_hazardous_asteroid) probability *= 2\<close>.\<close>

definition hazard_adjusted :: "bool \<Rightarrow> number \<Rightarrow> number" where
  "hazard_adjusted hazardous p =
     (if hazardous then js_mul p (Fin 2) else p)"

text \<open>The constants \<open>mass\<close>, \<open>kineticEnergy\<close> and \<open>craterSize\<close>.\<close>

definition mass :: "number \<Rightarrow> number" where
  "mass diam =
     js_mul (js_mul (js_mul (js_div (Fin 4) (Fin 3)) Math_PI)
                    (Math_pow (js_div diam (Fin 2)) 3))
            (Fin 2500)"

definition kinetic_energy :: "number \<Rightarrow> number \<Rightarrow> number" where
  "kinetic_energy m velocity =
     js_mul (js_mul (Fin 0.5) m) (Math_pow (js_mul velocity (Fin 1000)) 2)"

definition crater_size :: "number \<Rightarrow> number" where
  "crater_size energy = js_mul (Math_pow (js_div energy (Fin (10 ^ 15))) 0.25) (Fin 1000)"

text \<open>
  The expression \<open>Date.now() + (Math.random() * 365 * 24 * 60 * 60 * 1000)\<close>, evaluated
  left to right.
\<close>

definition impact_time :: "sources \<Rightarrow> number \<times> sources" where
  "impact_time s =
     (let (now, s1) = Date_now s;
          (r, s2) = Math_random s1
      in (js_add now
            (js_mul (js_mul (js_mul (js_mul (js_mul r (Fin 365)) (Fin 24)) (Fin 60)) (Fin 60))
                    (Fin 1000)),
          s2))"

text \<open>
  The function returns the record it hands to \<open>onAnalysisComplete\<close>, and the sources
  after its reads. With no close-approach record \<open>close_approach_data[0]\<close> is
  \<open>undefined\<close> and reading its \<open>miss_distance\<close> throws. The progress bar updates that
  precede the calculation do not touch any value used here.
\<close>

definition calculateCollisionProbability ::
    "Asteroid \<Rightarrow> sources \<Rightarrow> (error + CollisionAnalysis) \<times> sources" where
  "calculateCollisionProbability asteroid s =
     (case close_approach_data asteroid of
        [] \<Rightarrow> (Inl TypeError, s)
      | closestApproach # others \<Rightarrow>
          let missDistance = parseFloat (kilometers (miss_distance closestApproach));
              velocity = parseFloat (kilometers_per_second (relative_velocity closestApproach));
              diam = js_div (js_add (estimated_diameter_min (diameter asteroid))
                                    (estimated_diameter_max (diameter asteroid))) (Fin 2);
              (probability0, collide) = distance_tier missDistance;
              probability1 =
                hazard_adjusted (is_potentially_hazardous_asteroid asteroid) probability0;
              m = mass diam;
              energy = kinetic_energy m velocity;
              crater = crater_size energy;
              tsunami = (js_gt diam (Fin 100) \<and> collide);
              (impact, s') = (if collide then map_prod Some id (impact_time s) else (None, s))
          in (Inr \<lparr> willCollide = collide,
                    probability = Math_min probability1 (Fin 0.95),
                    timeToImpact = impact,
                    impactVelocity = Some velocity,
                    kineticEnergy = Some energy,
                    tsunamiRisk = Some tsunami,
                    craterSize = Some crater \<rparr>,
              s'))"

section \<open>The distance bands as the specification words them\<close>

text \<open>
  With \<open>R = 6371\<close>: below \<open>2R\<close> the probability is \<open>max(0.1, 1 - d/(10R))\<close> and the body
  collides when \<open>d < 1.5R\<close>; from \<open>2R\<close> up to \<open>10R\<close> it is \<open>max(0.001, 0.1 - d/(100R))\<close>;
  from \<open>10R\<close> on it is \<open>max(0.0001, 0.01 - d/(1000R))\<close>; no collision in the last two.
\<close>

definition spec_bands :: "real \<Rightarrow> real \<times> bool" where
  "spec_bands d =
     (let R = 6371 in
      if d < 2 * R then (max 0.1 (1 - d / (10 * R)), d < 1.5 * R)
      else if 2 * R \<le> d \<and> d < 10 * R then (max 0.001 (0.1 - d / (100 * R)), False)
      else (max 0.0001 (0.01 - d / (1000 * R)), False))"

section \<open>Example inputs\<close>

definition example_approach :: "string \<Rightarrow> string \<Rightarrow> close_approach" where
  "example_approach km kms =
     \<lparr> epoch_date_close_approach = Fin 1762000000000,
       relative_velocity = \<lparr> kilometers_per_second = kms \<rparr>,
       miss_distance = \<lparr> kilometers = km \<rparr> \<rparr>"

definition example_asteroid :: "close_approach list \<Rightarrow> real \<Rightarrow> real \<Rightarrow> bool \<Rightarrow> Asteroid" where
  "example_asteroid approaches lo hi hazardous =
     \<lparr> asteroid_id = ''3542519'',
       name = ''(2010 PK9)'',
       diameter = \<lparr> estimated_diameter_min = Fin lo, estimated_diameter_max = Fin hi \<rparr>,
       close_approach_data = approaches,
       orbital_data =
         \<lparr> orbit_class = \<lparr> orbit_class_type = ''APO'', orbit_class_description = [] \<rparr>,
           inclination = ''12.5'', eccentricity = ''0.4'', semi_major_axis = ''1.1'' \<rparr>,
       absolute_magnitude_h = Fin 21,
       is_potentially_hazardous_asteroid = hazardous \<rparr>"

section \<open>Lower bounds on numbers\<close>

text \<open>A number that is \<open>+Infinity\<close> or a finite value not below \<open>c\<close>.\<close>

definition at_least :: "real \<Rightarrow> number \<Rightarrow> bool" where
  "at_least c q = (case q of Fin p \<Rightarrow> c \<le> p | PosInf \<Rightarrow> True | NaN \<Rightarrow> False | NegInf \<Rightarrow> False)"

section \<open>Evaluating the model\<close>

lemma overflow_threshold_large: "10 ^ 308 < overflow_threshold"
  by (simp add: overflow_threshold_def)

lemma to_number_Fin: "\<bar>x\<bar> < overflow_threshold \<Longrightarrow> to_number x = Fin x"
  by (auto simp add: to_number_def)

lemma to_number_small: "\<bar>x\<bar> \<le> 10 ^ 308 \<Longrightarrow> to_number x = Fin x"
  using overflow_threshold_large by (intro to_number_Fin) linarith

lemma to_number_eq_Fin: "to_number x = Fin d \<longleftrightarrow> x = d \<and> \<bar>d\<bar> < overflow_threshold"
  by (auto simp add: to_number_def)

lemma to_number_not_NaN: "to_number x \<noteq> NaN"
  by (simp add: to_number_def)

lemma to_number_nonneg: "0 \<le> x \<Longrightarrow> x < overflow_threshold \<Longrightarrow> to_number x = Fin x"
  by (intro to_number_Fin) simp

lemmas parseFloat_eval =
  parseFloat_def is_white_space_def is_decimal_digit_def digits_value_def exponent_part_def
  to_number_def overflow_threshold_def

lemma parseFloat_5000: "parseFloat ''5000'' = Fin 5000"
  by (simp add: parseFloat_eval)

lemma parseFloat_50000: "parseFloat ''50000'' = Fin 50000"
  by (simp add: parseFloat_eval)

lemma parseFloat_20: "parseFloat ''20'' = Fin 20"
  by (simp add: parseFloat_eval)


lemma parseFloat_unknown: "parseFloat ''unknown'' = NaN"
  by (simp add: parseFloat_eval)

lemma parseFloat_fast: "parseFloat ''fast'' = NaN"
  by (simp add: parseFloat_eval)

lemma parseFloat_fraction: "parseFloat '' -12.5e2 km'' = Fin (- 1250)"
  by (simp add: parseFloat_eval)

lemma parseFloat_Infinity: "parseFloat ''Infinity'' = PosInf"
  by (simp add: parseFloat_eval)


lemma parseFloat_1e400: "parseFloat ''1e400'' = PosInf"
  by (simp add: parseFloat_eval)

lemma parseFloat_range: "parseFloat s = Fin d \<Longrightarrow> \<bar>d\<bar> < overflow_threshold"
  by (simp add: parseFloat_def Let_def to_number_eq_Fin split: if_splits)

text \<open>The record returned whenever there is a first close-approach record.\<close>

lemma calculateCollisionProbability_Cons:
  assumes "close_approach_data a = c # cs"
  shows "fst (calculateCollisionProbability a s) =
    Inr \<lparr> willCollide = snd (distance_tier (parseFloat (kilometers (miss_distance c)))),
          probability =
            Math_min (hazard_adjusted (is_potentially_hazardous_asteroid a)
                        (fst (distance_tier (parseFloat (kilometers (miss_distance c))))))
                     (Fin 0.95),
          timeToImpact =
            (if snd (distance_tier (parseFloat (kilometers (miss_distance c))))
             then Some (fst (impact_time s)) else None),
          impactVelocity = Some (parseFloat (kilometers_per_second (relative_velocity c))),
          kineticEnergy =
            Some (kinetic_energy
                    (mass (js_div (js_add (estimated_diameter_min (diameter a))
                                          (estimated_diameter_max (diameter a))) (Fin 2)))
                    (parseFloat (kilometers_per_second (relative_velocity c)))),
          tsunamiRisk =
            Some (js_gt (js_div (js_add (estimated_diameter_min (diameter a))
                                        (estimated_diameter_max (diameter a))) (Fin 2)) (Fin 100)
                  \<and> snd (distance_tier (parseFloat (kilometers (miss_distance c))))),
          craterSize =
            Some (crater_size (kinetic_energy
                    (mass (js_div (js_add (estimated_diameter_min (diameter a))
                                          (estimated_diameter_max (diameter a))) (Fin 2)))
                    (parseFloat (kilometers_per_second (relative_velocity c))))) \<rparr>"
  using assms
  by (cases "impact_time s")
     (simp add: calculateCollisionProbability_def Let_def case_prod_beta)

lemma threshold_pos: "2 < overflow_threshold"
  using overflow_threshold_large by simp

lemma earth_multiple: "\<bar>y\<bar> \<le> 10 ^ 300 \<Longrightarrow> js_mul earthRadius (Fin y) = Fin (6371 * y)"
  unfolding earthRadius_def js_mul.simps
  by (intro to_number_small) (simp add: abs_mult)

lemma earth_multiples:
  "js_mul earthRadius (Fin 2) = Fin (6371 * 2)"
  "js_mul earthRadius (Fin 1.5) = Fin (6371 * 1.5)"
  "js_mul earthRadius (Fin 10) = Fin (6371 * 10)"
  "js_mul earthRadius (Fin 100) = Fin (6371 * 100)"
  "js_mul earthRadius (Fin 1000) = Fin (6371 * 1000)"
  by (simp_all add: earth_multiple)

text \<open>The chain on the miss distance with the multiples of the Earth radius worked out.\<close>

lemma distance_tier_unfold:
  "distance_tier m =
     (if js_lt m (Fin 12742) then
        (Math_max (Fin 0.1) (js_sub (Fin 1) (js_div m (Fin 63710))), js_lt m (Fin 9556.5))
      else if js_lt m (Fin 63710) then
        (Math_max (Fin 0.001) (js_sub (Fin 0.1) (js_div m (Fin 637100))), False)
      else
        (Math_max (Fin 0.0001) (js_sub (Fin 0.01) (js_div m (Fin 6371000))), False))"
  unfolding distance_tier_def earth_multiples by simp

lemma quotient_in_range:
  assumes "\<bar>d\<bar> < overflow_threshold" and "2 \<le> c" and "\<bar>k\<bar> \<le> 1"
  shows "to_number (d / c) = Fin (d / c)" and "to_number (k - d / c) = Fin (k - d / c)"
proof -
  have "\<bar>d / c\<bar> = \<bar>d\<bar> / \<bar>c\<bar>"
    by (rule abs_divide)
  moreover have "\<bar>c\<bar> = c"
    using assms(2) by simp
  moreover have "\<bar>d\<bar> / c \<le> \<bar>d\<bar> / 2"
    using assms(2) by (intro divide_left_mono) simp_all
  ultimately have q: "\<bar>d / c\<bar> \<le> \<bar>d\<bar> / 2"
    by simp
  then show "to_number (d / c) = Fin (d / c)"
    using assms(1) by (intro to_number_Fin) linarith
  have "\<bar>k - d / c\<bar> \<le> 1 + \<bar>d\<bar> / 2"
    using q assms(3) by linarith
  then show "to_number (k - d / c) = Fin (k - d / c)"
    using assms(1) threshold_pos by (intro to_number_Fin) linarith
qed

lemma band_value:
  assumes "\<bar>d\<bar> < overflow_threshold" and "2 \<le> c" and "\<bar>k\<bar> \<le> 1"
  shows "js_sub (Fin k) (js_div (Fin d) (Fin c)) = Fin (k - d / c)"
proof -
  have "c \<noteq> 0"
    using assms(2) by simp
  then have "js_div (Fin d) (Fin c) = Fin (d / c)"
    by (simp add: quotient_in_range(1) [OF assms])
  then show ?thesis
    by (simp add: js_sub_def quotient_in_range(2) [OF assms])
qed

lemma distance_tier_Fin:
  assumes "\<bar>d\<bar> < overflow_threshold"
  shows "distance_tier (Fin d) = (Fin (fst (spec_bands d)), snd (spec_bands d))"
proof -
  have b1: "js_sub (Fin 1) (js_div (Fin d) (Fin 63710)) = Fin (1 - d / 63710)"
    by (rule band_value [OF assms]) simp_all
  have b2: "js_sub (Fin 0.1) (js_div (Fin d) (Fin 637100)) = Fin (0.1 - d / 637100)"
    by (rule band_value [OF assms]) simp_all
  have b3: "js_sub (Fin 0.01) (js_div (Fin d) (Fin 6371000)) = Fin (0.01 - d / 6371000)"
    by (rule band_value [OF assms]) simp_all
  show ?thesis
    unfolding distance_tier_unfold b1 b2 b3
    by (simp add: spec_bands_def Let_def)
qed

lemma spec_bands_collide: "snd (spec_bands d) \<longleftrightarrow> d < 1.5 * 6371"
  by (simp add: spec_bands_def Let_def)

lemma distance_tier_collide: "snd (distance_tier m) = js_lt m (Fin (1.5 * 6371))"
  by (cases m) (simp_all add: distance_tier_unfold)

lemma distance_tier_NaN: "distance_tier NaN = (NaN, False)"
  by (simp add: distance_tier_unfold js_sub_def)

text \<open>Lower bounds survive the floor of a band, the doubling and the cap.\<close>

lemma at_least_weaken: "at_least a q \<Longrightarrow> b \<le> a \<Longrightarrow> at_least b q"
  by (cases q) (simp_all add: at_least_def)

lemma band_not_NaN: "c \<noteq> 0 \<Longrightarrow> js_sub (Fin k) (js_div (Fin d) (Fin c)) \<noteq> NaN"
  by (simp add: js_sub_def to_number_def)

lemma at_least_floor: "x \<noteq> NaN \<Longrightarrow> at_least c (Math_max (Fin c) x)"
  by (cases x) (simp_all add: at_least_def)

lemma at_least_tier: "at_least 0.0001 (fst (distance_tier (Fin d)))"
proof -
  have "at_least 0.1 (Math_max (Fin 0.1) (js_sub (Fin 1) (js_div (Fin d) (Fin 63710))))"
    "at_least 0.001 (Math_max (Fin 0.001) (js_sub (Fin 0.1) (js_div (Fin d) (Fin 637100))))"
    "at_least 0.0001 (Math_max (Fin 0.0001) (js_sub (Fin 0.01) (js_div (Fin d) (Fin 6371000))))"
    by (rule at_least_floor, rule band_not_NaN, simp)+
  then have
    "at_least 0.0001 (Math_max (Fin 0.1) (js_sub (Fin 1) (js_div (Fin d) (Fin 63710))))"
    "at_least 0.0001 (Math_max (Fin 0.001) (js_sub (Fin 0.1) (js_div (Fin d) (Fin 637100))))"
    "at_least 0.0001 (Math_max (Fin 0.0001) (js_sub (Fin 0.01) (js_div (Fin d) (Fin 6371000))))"
    by (auto elim: at_least_weaken)
  then show ?thesis
    unfolding distance_tier_unfold
    by (cases "js_lt (Fin d) (Fin 12742)"; cases "js_lt (Fin d) (Fin 63710)")
       (simp_all only: if_True if_False fst_conv)
qed

lemma at_least_hazard: "at_least c q \<Longrightarrow> 0 \<le> c \<Longrightarrow> at_least c (hazard_adjusted h q)"
  using threshold_pos
  by (cases q) (auto simp add: hazard_adjusted_def at_least_def to_number_def)

lemma at_least_cap:
  assumes "at_least c q" and "c \<le> 0.95"
  shows "\<exists>p. Math_min q (Fin 0.95) = Fin p \<and> c \<le> p \<and> p \<le> 0.95"
proof (cases q)
  case (Fin x)
  with assms have "c \<le> min x 0.95" "min x 0.95 \<le> 0.95"
    by (simp_all add: at_least_def)
  then show ?thesis
    using Fin by (intro exI [of _ "min x 0.95"]) simp
next
  case PosInf
  with assms(2) show ?thesis
    by (intro exI [of _ "0.95"]) simp
qed (use assms in \<open>simp_all add: at_least_def\<close>)

lemma at_least_collide:
  assumes "snd (distance_tier m)"
  shows "at_least 0.85 (fst (distance_tier m))"
proof (cases m)
  case (Fin d)
  with assms have near: "d < 9556.5"
    by (simp add: distance_tier_collide)
  then have "d / 63710 < 0.15"
    by simp
  then have "at_least 0.85 (js_sub (Fin 1) (js_div (Fin d) (Fin 63710)))"
    using threshold_pos by (simp add: js_sub_def to_number_def at_least_def)
  then have "at_least 0.85 (Math_max (Fin 0.1) (js_sub (Fin 1) (js_div (Fin d) (Fin 63710))))"
    by (cases "js_sub (Fin 1) (js_div (Fin d) (Fin 63710))") (simp_all add: at_least_def)
  moreover have "js_lt (Fin d) (Fin 12742)"
    using near by simp
  ultimately show ?thesis
    unfolding Fin distance_tier_unfold by (simp only: if_True fst_conv)
next
  case NegInf
  then show ?thesis
    by (simp add: distance_tier_unfold js_sub_def at_least_def)
qed (use assms in \<open>simp_all add: distance_tier_unfold\<close>)

lemma collide_capped:
  assumes "snd (distance_tier m)"
  shows "\<exists>p. Math_min (hazard_adjusted h (fst (distance_tier m))) (Fin 0.95) = Fin p
             \<and> 0.85 \<le> p \<and> p \<le> 0.95"
  using at_least_cap [OF at_least_hazard [OF at_least_collide [OF assms], of h]] by simp


lemma Math_pow_NaN: "y \<noteq> 0 \<Longrightarrow> Math_pow NaN y = NaN"
  by (simp add: Math_pow_def)

lemma js_mul_NaN_right: "js_mul a NaN = NaN"
  by (cases a) simp_all

lemma kinetic_energy_NaN: "kinetic_energy m NaN = NaN"
  by (simp add: kinetic_energy_def Math_pow_NaN js_mul_NaN_right)

lemma crater_size_NaN: "crater_size NaN = NaN"
  by (simp add: crater_size_def Math_pow_NaN)

text \<open>Powers that stay in range, and one that does not.\<close>

lemma Math_pow_3: "0 \<le> x \<Longrightarrow> x ^ 3 < overflow_threshold \<Longrightarrow> Math_pow (Fin x) 3 = Fin (x ^ 3)"
  by (simp add: Math_pow_def is_integer_def to_number_nonneg)

lemma Math_pow_2: "x\<^sup>2 < overflow_threshold \<Longrightarrow> Math_pow (Fin x) 2 = Fin (x\<^sup>2)"
  by (simp add: Math_pow_def is_integer_def to_number_nonneg)




text \<open>Diameter, mass, energy and crater size while nothing overflows.\<close>

lemma diameter_value:
  assumes "0 \<le> lo" and "0 \<le> hi" and "lo + hi < overflow_threshold"
  shows "js_div (js_add (Fin lo) (Fin hi)) (Fin 2) = Fin ((lo + hi) / 2)"
proof -
  have "to_number (lo + hi) = Fin (lo + hi)" "to_number ((lo + hi) / 2) = Fin ((lo + hi) / 2)"
    using assms by (simp_all add: to_number_nonneg)
  then show ?thesis
    by simp
qed

lemma cube_le_mass: "0 \<le> (x::real) \<Longrightarrow> x ^ 3 \<le> 4 / 3 * pi * x ^ 3 * 2500"
proof -
  assume "0 \<le> x"
  then have "1 * x ^ 3 \<le> (4 / 3 * pi * 2500) * x ^ 3"
    by (intro mult_right_mono) (use pi_ge_two in simp_all)
  then show ?thesis
    by (simp add: mult.commute mult.left_commute)
qed

lemma le_max_cube: "0 \<le> (x::real) \<Longrightarrow> x \<le> max 1 (x ^ 3)"
proof (cases "x \<le> 1")
  case False
  have "x ^ 1 \<le> x ^ 3"
    by (intro power_increasing) (use False in simp_all)
  then show ?thesis
    by simp
qed simp

lemma mass_value:
  assumes "0 \<le> D" and "4 / 3 * pi * (D / 2) ^ 3 * 2500 < overflow_threshold"
  shows "mass (Fin D) = Fin (4 / 3 * pi * (D / 2) ^ 3 * 2500)"
proof -
  have r: "0 \<le> D / 2"
    using assms(1) by simp
  have c: "(D / 2) ^ 3 < overflow_threshold"
    using cube_le_mass [OF r] assms(2) by linarith
  have h: "D / 2 < overflow_threshold"
    using le_max_cube [OF r] c threshold_pos by linarith
  have p: "4 / 3 * pi \<le> 10 ^ 308" "0 \<le> 4 / 3 * pi"
    using pi_less_4 pi_ge_two by simp_all
  have "4 / 3 * pi * (D / 2) ^ 3 \<le> 4 / 3 * pi * (D / 2) ^ 3 * 2500"
    using r p(2) by simp
  then have q: "4 / 3 * pi * (D / 2) ^ 3 < overflow_threshold"
    using assms(2) by linarith
  have s1: "js_div (Fin 4) (Fin 3) = Fin (4 / 3)"
    by (simp add: to_number_small)
  have s2: "js_mul (Fin (4 / 3)) Math_PI = Fin (4 / 3 * pi)"
    using p by (simp add: Math_PI_def to_number_small)
  have s3: "js_div (Fin D) (Fin 2) = Fin (D / 2)"
    using r h by (simp add: to_number_nonneg)
  have s4: "Math_pow (Fin (D / 2)) 3 = Fin ((D / 2) ^ 3)"
    using r c by (rule Math_pow_3)
  have s5: "js_mul (Fin (4 / 3 * pi)) (Fin ((D / 2) ^ 3)) = Fin (4 / 3 * pi * (D / 2) ^ 3)"
    unfolding js_mul.simps using r p(2) q by (intro to_number_nonneg) simp_all
  have s6: "js_mul (Fin (4 / 3 * pi * (D / 2) ^ 3)) (Fin 2500)
      = Fin (4 / 3 * pi * (D / 2) ^ 3 * 2500)"
    unfolding js_mul.simps using r p(2) assms(2) by (intro to_number_nonneg) simp_all
  show ?thesis
    unfolding mass_def s1 s2 s3 s4 s5 s6 ..
qed

lemma le_max_square: "0 \<le> (x::real) \<Longrightarrow> x \<le> max 1 (x\<^sup>2)"
proof (cases "x \<le> 1")
  case False
  have "x ^ 1 \<le> x ^ 2"
    by (intro power_increasing) (use False in simp_all)
  then show ?thesis
    by simp
qed simp

lemma kinetic_energy_value:
  assumes "0 \<le> m" and "m < overflow_threshold" and "0 \<le> v"
    and "(v * 1000)\<^sup>2 < overflow_threshold"
    and "0.5 * m * (v * 1000)\<^sup>2 < overflow_threshold"
  shows "kinetic_energy (Fin m) (Fin v) = Fin (0.5 * m * (v * 1000)\<^sup>2)"
proof -
  have w: "0 \<le> v * 1000"
    using assms(3) by simp
  have "v * 1000 < overflow_threshold"
    using le_max_square [OF w] assms(4) threshold_pos by linarith
  then have s1: "js_mul (Fin v) (Fin 1000) = Fin (v * 1000)"
    unfolding js_mul.simps using w by (intro to_number_nonneg)
  have s2: "Math_pow (Fin (v * 1000)) 2 = Fin ((v * 1000)\<^sup>2)"
    using assms(4) by (rule Math_pow_2)
  have "0.5 * m < overflow_threshold" "0 \<le> 0.5 * m"
    using assms(1,2) by simp_all
  then have s3: "js_mul (Fin 0.5) (Fin m) = Fin (0.5 * m)"
    unfolding js_mul.simps by (intro to_number_nonneg)
  have s4: "js_mul (Fin (0.5 * m)) (Fin ((v * 1000)\<^sup>2)) = Fin (0.5 * m * (v * 1000)\<^sup>2)"
    unfolding js_mul.simps using assms(1,5) by (intro to_number_nonneg) simp_all
  show ?thesis
    unfolding kinetic_energy_def s1 s2 s3 s4 ..
qed


text \<open>A large diameter: the cube of the radius overflows, and \<open>Infinity * 0\<close> is NaN.\<close>

lemma mass_overflow: "mass (Fin (10 ^ 200)) = PosInf"
proof -
  have s1: "js_div (Fin 4) (Fin 3) = Fin (4 / 3)"
    by (simp add: to_number_small)
  have s2: "js_mul (Fin (4 / 3)) Math_PI = Fin (4 / 3 * pi)"
    using pi_less_4 by (simp add: Math_PI_def to_number_small)
  have s3: "js_div (Fin (10 ^ 200)) (Fin 2) = Fin (10 ^ 200 / 2)"
    by (simp add: to_number_small)
  have s4: "Math_pow (Fin (10 ^ 200 / 2)) 3 = PosInf"
    by (simp add: Math_pow_def is_integer_def to_number_def overflow_threshold_def)
  have s5: "js_mul (Fin (4 / 3 * pi)) PosInf = PosInf"
    by simp
  show ?thesis
    unfolding mass_def s1 s2 s3 s4 s5 by simp
qed

lemma mass_overflow_energy: "kinetic_energy (mass (Fin (10 ^ 200))) (Fin 0) = NaN"
  unfolding mass_overflow
  by (simp add: kinetic_energy_def Math_pow_def to_number_small)

text \<open>The clock and the generator.\<close>

lemma year_offset:
  assumes "0 \<le> u" and "u < 1"
  shows "js_mul (js_mul (js_mul (js_mul (js_mul (Fin u) (Fin 365)) (Fin 24)) (Fin 60)) (Fin 60))
           (Fin 1000) = Fin (u * 365 * 24 * 60 * 60 * 1000)"
proof -
  have "to_number (u * 365) = Fin (u * 365)" "to_number (u * 365 * 24) = Fin (u * 365 * 24)"
    "to_number (u * 365 * 24 * 60) = Fin (u * 365 * 24 * 60)"
    "to_number (u * 365 * 24 * 60 * 60) = Fin (u * 365 * 24 * 60 * 60)"
    "to_number (u * 365 * 24 * 60 * 60 * 1000) = Fin (u * 365 * 24 * 60 * 60 * 1000)"
    using assms by (intro to_number_small; simp)+
  then show ?thesis
    by (simp only: js_mul.simps)
qed

lemma impact_time_value:
  assumes "0 \<le> shd (generator s)" and "shd (generator s) < 1"
  shows "fst (impact_time s)
    = to_number (shd (clock s) + shd (generator s) * 365 * 24 * 60 * 60 * 1000)"
  unfolding impact_time_def Date_now_def Math_random_def
  by (simp add: year_offset [OF assms] del: js_mul.simps)

lemma impact_time_sources:
  "snd (impact_time s) = s\<lparr>clock := stl (clock s), generator := stl (generator s)\<rparr>"
  by (simp add: impact_time_def Date_now_def Math_random_def)

lemma date_in_range:
  assumes "\<bar>t\<bar> \<le> 8640000000000000" and "0 \<le> u" and "u < 1"
  shows "to_number (t + u * 365 * 24 * 60 * 60 * 1000) = Fin (t + u * 365 * 24 * 60 * 60 * 1000)"
  using assms by (intro to_number_small) simp


text \<open>The example inputs.\<close>

lemma example_first:
  "close_approach_data (example_asteroid (c # cs) lo hi h) = c # cs"
  by (simp add: example_asteroid_def)

lemma example_diameter:
  "estimated_diameter_min (diameter (example_asteroid cs lo hi h)) = Fin lo"
  "estimated_diameter_max (diameter (example_asteroid cs lo hi h)) = Fin hi"
  by (simp_all add: example_asteroid_def)

lemma example_hazardous:
  "is_potentially_hazardous_asteroid (example_asteroid cs lo hi h) = h"
  by (simp add: example_asteroid_def)

lemma example_strings:
  "kilometers (miss_distance (example_approach km kms)) = km"
  "kilometers_per_second (relative_velocity (example_approach km kms)) = kms"
  by (simp_all add: example_approach_def)

lemma example_5000:
  "parseFloat (kilometers (miss_distance (example_approach ''5000'' ''20''))) = Fin 5000"
  by (simp add: example_strings parseFloat_5000)

lemma spec_bands_5000: "spec_bands 5000 = (1 - 5000 / 63710, True)"
  by (simp add: spec_bands_def)

lemma distance_tier_5000: "distance_tier (Fin 5000) = (Fin (1 - 5000 / 63710), True)"
  using distance_tier_Fin [OF parseFloat_range [OF parseFloat_5000]]
  by (simp add: spec_bands_5000)

lemma example_collides:
  "snd (distance_tier (parseFloat (kilometers (miss_distance (example_approach ''5000'' ''20'')))))"
  by (simp add: example_5000 distance_tier_5000)

lemma double_below_cap: "js_mul (Fin (1371 / 63710)) (Fin 2) = Fin (1371 / 63710 * 2)"
  unfolding js_mul.simps by (intro to_number_small) simp

lemma double_above_cap: "js_mul (Fin (1 - 5000 / 63710)) (Fin 2) = Fin ((1 - 5000 / 63710) * 2)"
  unfolding js_mul.simps by (intro to_number_small) simp




lemma sources_after:
  assumes "close_approach_data a = c # cs"
  shows "snd (calculateCollisionProbability a s) =
    (if snd (distance_tier (parseFloat (kilometers (miss_distance c))))
     then s\<lparr>clock := stl (clock s), generator := stl (generator s)\<rparr> else s)"
  using assms impact_time_sources [of s]
  by (cases "impact_time s")
     (simp add: calculateCollisionProbability_def Let_def case_prod_beta)

lemma impact_time_heads:
  "shd (clock s') = shd (clock s) \<Longrightarrow> shd (generator s') = shd (generator s) \<Longrightarrow>
   fst (impact_time s') = fst (impact_time s)"
  by (simp add: impact_time_def Date_now_def Math_random_def)

section \<open>The three distance bands\<close>

text \<open>
  C1. When the first close-approach record carries a finite miss distance \<open>d\<close>, the
  \<open>if\<close> chain yields exactly the probability and the collision flag of the three bands
  of the specification (\<open>R = 6371\<close>): the flag is the \<open>willCollide\<close> of the result, and the
  probability is the value that the hazard doubling and the cap are then applied to.
  The sign of \<open>d\<close> plays no role, so this covers every \<open>d \<ge> 0\<close>.
\<close>

theorem distance_bands:
  assumes "close_approach_data a = c # cs"
    and "parseFloat (kilometers (miss_distance c)) = Fin d"
  shows "distance_tier (Fin d) = (Fin (fst (spec_bands d)), snd (spec_bands d)) \<and>
    (\<exists>r. fst (calculateCollisionProbability a s) = Inr r \<and>
         willCollide r = snd (spec_bands d) \<and>
         probability r =
           Math_min (hazard_adjusted (is_potentially_hazardous_asteroid a)
                       (Fin (fst (spec_bands d)))) (Fin 0.95))"
  using assms parseFloat_range [OF assms(2)]
  by (simp add: calculateCollisionProbability_Cons distance_tier_Fin)

theorem distance_bands_witness:
  "close_approach_data (example_asteroid [example_approach ''50000'' ''15''] 0.4 0.6 True)
     = [example_approach ''50000'' ''15''] \<and>
   parseFloat (kilometers (miss_distance (example_approach ''50000'' ''15''))) = Fin 50000 \<and>
   distance_tier (Fin 50000) = (Fin (0.1 - 50000 / 637100), False) \<and>
   (\<exists>r. fst (calculateCollisionProbability
               (example_asteroid [example_approach ''50000'' ''15''] 0.4 0.6 True) (pinned 0 0))
           = Inr r \<and>
        willCollide r = False \<and> probability r = Fin ((0.1 - 50000 / 637100) * 2))"
proof -
  have h1: "close_approach_data (example_asteroid [example_approach ''50000'' ''15''] 0.4 0.6 True)
      = example_approach ''50000'' ''15'' # []"
    by (simp add: example_asteroid_def)
  have h2: "parseFloat (kilometers (miss_distance (example_approach ''50000'' ''15''))) = Fin 50000"
    by (simp add: example_approach_def parseFloat_50000)
  have b: "spec_bands 50000 = (0.1 - 50000 / 637100, False)"
    by (simp add: spec_bands_def)
  have hz: "is_potentially_hazardous_asteroid
      (example_asteroid [example_approach ''50000'' ''15''] 0.4 0.6 True)"
    by (simp add: example_asteroid_def)
  show ?thesis
    using distance_bands [OF h1 h2, of "pinned 0 0"] h1 h2 hz double_below_cap
    by (simp add: b hazard_adjusted_def del: js_mul.simps)
qed

section \<open>Missing and unparseable data\<close>

text \<open>
  C2 (as amended). The function has no validation and no error of its own. Whenever there
  is a first close-approach record it returns a result: a miss distance that \<open>parseFloat\<close>
  turns into NaN gives the probability NaN and \<open>willCollide = false\<close>, and a velocity that
  \<open>parseFloat\<close> turns into NaN gives NaN as impact velocity, kinetic energy and crater
  size.
\<close>

theorem no_validation:
  assumes "close_approach_data a = c # cs"
  shows "\<exists>r. fst (calculateCollisionProbability a s) = Inr r \<and>
           (parseFloat (kilometers (miss_distance c)) = NaN \<longrightarrow>
              probability r = NaN \<and> \<not> willCollide r) \<and>
           (parseFloat (kilometers_per_second (relative_velocity c)) = NaN \<longrightarrow>
              impactVelocity r = Some NaN \<and> kineticEnergy r = Some NaN \<and>
              craterSize r = Some NaN)"
  using assms
  by (simp add: calculateCollisionProbability_Cons distance_tier_NaN hazard_adjusted_def
        kinetic_energy_NaN crater_size_NaN)

theorem no_validation_witness:
  "close_approach_data (example_asteroid [example_approach ''unknown'' ''fast''] 1 1 False)
     = [example_approach ''unknown'' ''fast''] \<and>
   parseFloat (kilometers (miss_distance (example_approach ''unknown'' ''fast''))) = NaN \<and>
   parseFloat (kilometers_per_second (relative_velocity (example_approach ''unknown'' ''fast'')))
     = NaN \<and>
   (\<exists>r. fst (calculateCollisionProbability
               (example_asteroid [example_approach ''unknown'' ''fast''] 1 1 False) (pinned 0 0))
           = Inr r \<and>
        probability r = NaN \<and> \<not> willCollide r \<and>
        impactVelocity r = Some NaN \<and> kineticEnergy r = Some NaN \<and> craterSize r = Some NaN)"
proof -
  have h: "close_approach_data (example_asteroid [example_approach ''unknown'' ''fast''] 1 1 False)
      = example_approach ''unknown'' ''fast'' # []"
    by (rule example_first)
  show ?thesis
    using no_validation [OF h, of "pinned 0 0"] h
    by (simp add: example_strings parseFloat_unknown parseFloat_fast)
qed

text \<open>
  C2 as stated fails: with no close-approach record the read of \<open>miss_distance\<close> on
  \<open>undefined\<close> throws a TypeError, and with the miss distance \<open>unknown\<close> the function
  returns a result whose probability is NaN.
\<close>

theorem missing_data_counterexample:
  "fst (calculateCollisionProbability (example_asteroid [] 1 1 False) (pinned 0 0))
     = Inl TypeError \<and>
   map_sum id probability
     (fst (calculateCollisionProbability
            (example_asteroid [example_approach ''unknown'' ''20''] 1 1 False) (pinned 0 0)))
     = Inr NaN"
  by (simp add: calculateCollisionProbability_Cons [OF example_first] example_strings
        parseFloat_unknown distance_tier_NaN hazard_adjusted_def example_hazardous)
     (simp add: calculateCollisionProbability_def example_asteroid_def)

section \<open>Mass and kinetic energy\<close>

text \<open>
  C3. The specification takes the diameter in kilometres and asks for the mass
  \<open>(4/3) \<pi> (D * 500)\<^sup>3 2500\<close> of a sphere whose radius is converted to metres. The code
  converts the velocity (\<open>* 1000\<close>) but cubes \<open>D / 2\<close> as it is: for \<open>D = 1\<close> and
  \<open>v = 20\<close> the mass is \<open>(4/3) \<pi> (1/2)\<^sup>3 2500\<close> and the kinetic energy of the result is
  \<open>0.5 * mass * (20 * 1000)\<^sup>2\<close>, both short of the specified values by the factor
  \<open>1000\<^sup>3\<close>.
\<close>

theorem mass_without_conversion:
  "mass (Fin 1) = Fin (4 / 3 * pi * (1 / 2) ^ 3 * 2500) \<and>
   mass (Fin 1) \<noteq> Fin (4 / 3 * pi * (1 * 500) ^ 3 * 2500) \<and>
   map_sum id kineticEnergy
     (fst (calculateCollisionProbability
            (example_asteroid [example_approach ''5000'' ''20''] 1 1 False) (pinned 0 0)))
     = Inr (Some (Fin (0.5 * (4 / 3 * pi * (1 / 2) ^ 3 * 2500) * (20 * 1000)\<^sup>2))) \<and>
   map_sum id kineticEnergy
     (fst (calculateCollisionProbability
            (example_asteroid [example_approach ''5000'' ''20''] 1 1 False) (pinned 0 0)))
     \<noteq> Inr (Some (Fin (0.5 * (4 / 3 * pi * (1 * 500) ^ 3 * 2500) * (20 * 1000)\<^sup>2)))"
proof -
  have b: "4 / 3 * pi * (1 / 2) ^ 3 * 2500 \<le> 10 ^ 4" "0 \<le> 4 / 3 * pi * (1 / 2) ^ 3 * 2500"
    using pi_less_4 by (simp_all add: power3_eq_cube)
  have m: "mass (Fin 1) = Fin (4 / 3 * pi * (1 / 2) ^ 3 * 2500)"
    using b overflow_threshold_large by (intro mass_value) simp_all
  have "0.5 * (4 / 3 * pi * (1 / 2) ^ 3 * 2500) * (20 * 1000)\<^sup>2
      \<le> 0.5 * 10 ^ 4 * (20 * 1000)\<^sup>2"
    using b(1) by simp
  then have k: "kinetic_energy (Fin (4 / 3 * pi * (1 / 2) ^ 3 * 2500)) (Fin 20)
      = Fin (0.5 * (4 / 3 * pi * (1 / 2) ^ 3 * 2500) * (20 * 1000)\<^sup>2)"
    using b overflow_threshold_large by (intro kinetic_energy_value) simp_all
  have d: "js_div (js_add (Fin 1) (Fin 1)) (Fin 2) = Fin 1"
    using diameter_value [of 1 1] overflow_threshold_large by simp
  have e: "map_sum id kineticEnergy
     (fst (calculateCollisionProbability
            (example_asteroid [example_approach ''5000'' ''20''] 1 1 False) (pinned 0 0)))
     = Inr (Some (Fin (0.5 * (4 / 3 * pi * (1 / 2) ^ 3 * 2500) * (20 * 1000)\<^sup>2)))"
    by (simp only: calculateCollisionProbability_Cons [OF example_first] example_strings
          example_diameter parseFloat_20 d m k map_sum.simps CollisionAnalysis.simps id_apply)
  have n: "4 / 3 * pi * (1 / 2) ^ 3 * 2500 \<noteq> 4 / 3 * pi * (1 * 500) ^ 3 * 2500"
    by (simp add: power3_eq_cube)
  show ?thesis
    unfolding e m using n by simp
qed

section \<open>Range of the probability\<close>

text \<open>
  C4. For every finite miss distance, whatever the velocity, the diameter and the hazard
  flag (so in particular for all non-negative \<open>d\<close>, \<open>v\<close> and \<open>D\<close>), the probability of the
  result is a finite number between 0 and 0.95.
\<close>

theorem probability_range:
  assumes "close_approach_data a = c # cs"
    and "parseFloat (kilometers (miss_distance c)) = Fin d"
  shows "\<exists>r p. fst (calculateCollisionProbability a s) = Inr r \<and>
           probability r = Fin p \<and> 0 \<le> p \<and> p \<le> 0.95"
proof -
  obtain p where "Math_min (hazard_adjusted (is_potentially_hazardous_asteroid a)
      (fst (distance_tier (Fin d)))) (Fin 0.95) = Fin p" and "0.0001 \<le> p" and "p \<le> 0.95"
    using at_least_cap [OF at_least_hazard [OF at_least_tier [of d],
          of "is_potentially_hazardous_asteroid a"]]
    by auto
  then show ?thesis
    using assms by (simp add: calculateCollisionProbability_Cons)
qed

theorem probability_range_witness:
  "close_approach_data (example_asteroid [example_approach ''5000'' ''20''] 1 1 True)
     = [example_approach ''5000'' ''20''] \<and>
   parseFloat (kilometers (miss_distance (example_approach ''5000'' ''20''))) = Fin 5000 \<and>
   (\<exists>r p. fst (calculateCollisionProbability
               (example_asteroid [example_approach ''5000'' ''20''] 1 1 True) (pinned 0 0))
           = Inr r \<and>
        probability r = Fin p \<and> 0 \<le> p \<and> p \<le> 0.95)"
proof -
  have h: "close_approach_data (example_asteroid [example_approach ''5000'' ''20''] 1 1 True)
      = example_approach ''5000'' ''20'' # []"
    by (rule example_first)
  show ?thesis
    using probability_range [OF h example_5000, of "pinned 0 0"] h example_5000
    by simp
qed

section \<open>The collision flag\<close>

text \<open>
  C5. The \<open>willCollide\<close> field of the result is true exactly when the parsed miss
  distance of the first close-approach record is less than \<open>1.5 * 6371\<close>, in the sense of
  the \<open><\<close> of the language (false for NaN).
\<close>

theorem willCollide_iff:
  assumes "close_approach_data a = c # cs"
  shows "\<exists>r. fst (calculateCollisionProbability a s) = Inr r \<and>
           willCollide r = js_lt (parseFloat (kilometers (miss_distance c))) (Fin (1.5 * 6371))"
  using assms
  by (simp add: calculateCollisionProbability_Cons distance_tier_collide)

theorem willCollide_iff_witness:
  "close_approach_data (example_asteroid [example_approach ''5000'' ''20''] 1 1 False)
     = [example_approach ''5000'' ''20''] \<and>
   (\<exists>r. fst (calculateCollisionProbability
               (example_asteroid [example_approach ''5000'' ''20''] 1 1 False) (pinned 0 0))
           = Inr r \<and>
        willCollide r = True)"
proof -
  have h: "close_approach_data (example_asteroid [example_approach ''5000'' ''20''] 1 1 False)
      = example_approach ''5000'' ''20'' # []"
    by (rule example_first)
  show ?thesis
    using willCollide_iff [OF h, of "pinned 0 0"] h
    by (simp add: example_5000)
qed

section \<open>Hazardous bodies\<close>

text \<open>
  C6. Let \<open>q\<close> be the probability computed from the distance band. Without the hazard
  flag the result carries \<open>min(q, 0.95)\<close>; with it, on the same input, the result carries
  \<open>min(q * 2, 0.95)\<close>: the value before the cap is doubled exactly, then capped.
\<close>

theorem hazard_doubles:
  assumes "close_approach_data a = c # cs"
  shows "\<exists>r0 r1.
     fst (calculateCollisionProbability (a\<lparr>is_potentially_hazardous_asteroid := False\<rparr>) s) = Inr r0 \<and>
     fst (calculateCollisionProbability (a\<lparr>is_potentially_hazardous_asteroid := True\<rparr>) s) = Inr r1 \<and>
     probability r0 =
       Math_min (fst (distance_tier (parseFloat (kilometers (miss_distance c))))) (Fin 0.95) \<and>
     probability r1 =
       Math_min (js_mul (fst (distance_tier (parseFloat (kilometers (miss_distance c))))) (Fin 2))
                (Fin 0.95)"
  using assms by (simp add: calculateCollisionProbability_Cons hazard_adjusted_def)

theorem hazard_doubles_witness:
  "close_approach_data (example_asteroid [example_approach ''5000'' ''20''] 1 1 False)
     = [example_approach ''5000'' ''20''] \<and>
   (\<exists>r0 r1.
      fst (calculateCollisionProbability
             (example_asteroid [example_approach ''5000'' ''20''] 1 1 False) (pinned 0 0))
        = Inr r0 \<and>
      fst (calculateCollisionProbability
             (example_asteroid [example_approach ''5000'' ''20''] 1 1 True) (pinned 0 0))
        = Inr r1 \<and>
      probability r0 = Fin (1 - 5000 / 63710) \<and>
      probability r1 = Fin 0.95)"
proof -
  have h: "close_approach_data (example_asteroid [example_approach ''5000'' ''20''] 1 1 False)
      = example_approach ''5000'' ''20'' # []"
    by (rule example_first)
  have upd:
    "(example_asteroid [example_approach ''5000'' ''20''] 1 1 False)
       \<lparr>is_potentially_hazardous_asteroid := False\<rparr>
       = example_asteroid [example_approach ''5000'' ''20''] 1 1 False"
    "(example_asteroid [example_approach ''5000'' ''20''] 1 1 False)
       \<lparr>is_potentially_hazardous_asteroid := True\<rparr>
       = example_asteroid [example_approach ''5000'' ''20''] 1 1 True"
    by (simp_all add: example_asteroid_def)
  show ?thesis
    using hazard_doubles [OF h, of "pinned 0 0"] h double_above_cap
    by (simp add: upd example_5000 distance_tier_5000 del: js_mul.simps)
qed

section \<open>Time to impact\<close>

text \<open>
  C7. When \<open>Math.random()\<close> returns a value in \<open>[0, 1)\<close>, the \<open>timeToImpact\<close> of the
  result is present exactly when \<open>willCollide\<close> is true, and it is then the number for the
  value of \<open>Date.now()\<close> plus an offset that is at least 0 and less than one year in
  milliseconds. For every time value \<open>Date.now()\<close> can return (at most \<open>8.64 * 10^15\<close> in
  magnitude) that number is the exact sum.
\<close>

theorem impact_time_present:
  assumes "close_approach_data a = c # cs"
    and "0 \<le> shd (generator s)" and "shd (generator s) < 1"
  shows "\<exists>r. fst (calculateCollisionProbability a s) = Inr r \<and>
           (timeToImpact r \<noteq> None) = willCollide r \<and>
           timeToImpact r =
             (if willCollide r
              then Some (to_number
                           (shd (clock s) + shd (generator s) * 365 * 24 * 60 * 60 * 1000))
              else None) \<and>
           (\<bar>shd (clock s)\<bar> \<le> 8640000000000000 \<longrightarrow>
              timeToImpact r =
                (if willCollide r
                 then Some (Fin (shd (clock s) + shd (generator s) * 365 * 24 * 60 * 60 * 1000))
                 else None)) \<and>
           0 \<le> shd (generator s) * 365 * 24 * 60 * 60 * 1000 \<and>
           shd (generator s) * 365 * 24 * 60 * 60 * 1000 < 365 * 24 * 60 * 60 * 1000"
  using assms date_in_range [OF _ assms(2,3)]
  by (simp add: calculateCollisionProbability_Cons impact_time_value)

theorem impact_time_present_witness:
  "close_approach_data (example_asteroid [example_approach ''5000'' ''20''] 1 1 False)
     = [example_approach ''5000'' ''20''] \<and>
   0 \<le> shd (generator (pinned 1762000000000 0.5)) \<and>
   shd (generator (pinned 1762000000000 0.5)) < 1 \<and>
   \<bar>shd (clock (pinned 1762000000000 0.5))\<bar> \<le> 8640000000000000 \<and>
   (\<exists>r. fst (calculateCollisionProbability
               (example_asteroid [example_approach ''5000'' ''20''] 1 1 False)
               (pinned 1762000000000 0.5))
           = Inr r \<and>
        willCollide r \<and> timeToImpact r = Some (Fin 1777768000000))"
proof -
  have h: "close_approach_data (example_asteroid [example_approach ''5000'' ''20''] 1 1 False)
      = example_approach ''5000'' ''20'' # []"
    by (rule example_first)
  have g: "0 \<le> shd (generator (pinned 1762000000000 0.5))"
    "shd (generator (pinned 1762000000000 0.5)) < 1"
    by (simp_all add: pinned_def)
  have t: "\<bar>shd (clock (pinned 1762000000000 0.5))\<bar> \<le> 8640000000000000"
    by (simp add: pinned_def)
  have v: "shd (clock (pinned 1762000000000 0.5))
      + shd (generator (pinned 1762000000000 0.5)) * 365 * 24 * 60 * 60 * 1000 = 1777768000000"
    by (simp add: pinned_def)
  note w = example_collides
  show ?thesis
    using impact_time_present [OF h g] h g t w v
    by (auto simp add: calculateCollisionProbability_Cons)
qed

section \<open>Kinetic energy and crater size\<close>




section \<open>Determinism\<close>

text \<open>
  C9. Two consecutive runs on the same asteroid, the second starting from the sources as
  the first run left them, both return a record. Whatever the sources, the two records
  agree in every field other than \<open>timeToImpact\<close>; and when the second reading of the clock
  and of the generator equal the first, as they do for pinned sources, the two records are
  identical.
\<close>

theorem two_runs:
  assumes "close_approach_data a = c # cs"
  shows "\<exists>r1 r2.
     fst (calculateCollisionProbability a s) = Inr r1 \<and>
     fst (calculateCollisionProbability a (snd (calculateCollisionProbability a s))) = Inr r2 \<and>
     r2 = r1\<lparr>timeToImpact := timeToImpact r2\<rparr> \<and>
     (shd (stl (clock s)) = shd (clock s) \<and> shd (stl (generator s)) = shd (generator s)
        \<longrightarrow> r2 = r1)"
proof -
  have "shd (stl (clock s)) = shd (clock s) \<Longrightarrow> shd (stl (generator s)) = shd (generator s) \<Longrightarrow>
      fst (impact_time (s\<lparr>clock := stl (clock s), generator := stl (generator s)\<rparr>))
        = fst (impact_time s)"
    by (rule impact_time_heads) simp_all
  then show ?thesis
    using assms
    by (simp add: calculateCollisionProbability_Cons sources_after)
qed

theorem two_runs_witness:
  "close_approach_data (example_asteroid [example_approach ''5000'' ''20''] 1 1 False)
     = [example_approach ''5000'' ''20''] \<and>
   shd (stl (clock (pinned 1762000000000 0.5))) = shd (clock (pinned 1762000000000 0.5)) \<and>
   shd (stl (generator (pinned 1762000000000 0.5)))
     = shd (generator (pinned 1762000000000 0.5)) \<and>
   (\<exists>r. fst (calculateCollisionProbability
               (example_asteroid [example_approach ''5000'' ''20''] 1 1 False)
               (pinned 1762000000000 0.5)) = Inr r \<and>
        fst (calculateCollisionProbability
               (example_asteroid [example_approach ''5000'' ''20''] 1 1 False)
               (snd (calculateCollisionProbability
                      (example_asteroid [example_approach ''5000'' ''20''] 1 1 False)
                      (pinned 1762000000000 0.5)))) = Inr r \<and>
        willCollide r \<and> timeToImpact r \<noteq> None)"
proof -
  have h: "close_approach_data (example_asteroid [example_approach ''5000'' ''20''] 1 1 False)
      = example_approach ''5000'' ''20'' # []"
    by (rule example_first)
  have p: "shd (stl (clock (pinned 1762000000000 0.5))) = shd (clock (pinned 1762000000000 0.5))"
    "shd (stl (generator (pinned 1762000000000 0.5)))
       = shd (generator (pinned 1762000000000 0.5))"
    by (simp_all add: pinned_def)
  have w: "willCollide r" "timeToImpact r \<noteq> None"
    if "fst (calculateCollisionProbability
               (example_asteroid [example_approach ''5000'' ''20''] 1 1 False)
               (pinned 1762000000000 0.5)) = Inr r" for r
    using that example_collides
    by (auto simp add: calculateCollisionProbability_Cons [OF h])
  show ?thesis
    using two_runs [OF h, of "pinned 1762000000000 0.5"] h p w
    by auto
qed

text \<open>
  Pinning matters: with a clock that advances, two runs on a colliding body differ (in
  \<open>timeToImpact\<close>).
\<close>

lemma unpinned_runs_differ:
  "fst (calculateCollisionProbability
          (example_asteroid [example_approach ''5000'' ''20''] 1 1 False)
          (snd (calculateCollisionProbability
                 (example_asteroid [example_approach ''5000'' ''20''] 1 1 False)
                 \<lparr>clock = 10 ## sconst 20, generator = sconst 0\<rparr>)))
   \<noteq> fst (calculateCollisionProbability
          (example_asteroid [example_approach ''5000'' ''20''] 1 1 False)
          \<lparr>clock = 10 ## sconst 20, generator = sconst 0\<rparr>)"
proof -
  have h: "close_approach_data (example_asteroid [example_approach ''5000'' ''20''] 1 1 False)
      = example_approach ''5000'' ''20'' # []"
    by (rule example_first)
  have "to_number 10 \<noteq> to_number 20"
    by (simp add: to_number_small)
  then show ?thesis
    using example_collides
    by (simp add: calculateCollisionProbability_Cons [OF h] sources_after [OF h]
          impact_time_value)
qed

section \<open>Probability of a predicted collision\<close>

text \<open>
  C10. Whenever the result has \<open>willCollide = true\<close>, its probability (after doubling
  and cap) is a finite number between 0.85 and 0.95.
\<close>

theorem collide_probability:
  assumes "close_approach_data a = c # cs"
  shows "\<exists>r. fst (calculateCollisionProbability a s) = Inr r \<and>
           (willCollide r \<longrightarrow> (\<exists>p. probability r = Fin p \<and> 0.85 \<le> p \<and> p \<le> 0.95))"
  using assms collide_capped
  by (simp add: calculateCollisionProbability_Cons)

theorem collide_probability_witness:
  "close_approach_data (example_asteroid [example_approach ''5000'' ''20''] 1 1 False)
     = [example_approach ''5000'' ''20''] \<and>
   (\<exists>r. fst (calculateCollisionProbability
               (example_asteroid [example_approach ''5000'' ''20''] 1 1 False) (pinned 0 0))
           = Inr r \<and>
        willCollide r \<and> (\<exists>p. probability r = Fin p \<and> 0.85 \<le> p \<and> p \<le> 0.95))"
proof -
  have h: "close_approach_data (example_asteroid [example_approach ''5000'' ''20''] 1 1 False)
      = example_approach ''5000'' ''20'' # []"
    by (rule example_first)
  note w = example_collides
  show ?thesis
    using collide_probability [OF h, of "pinned 0 0"] h w
    by (auto simp add: calculateCollisionProbability_Cons)
qed

end
